theory Spec2Isabelle
  imports Main "HOL-Library.Word"
begin

section \<open>The upcall layer of the task runtime (src/rt/rust\_upcall.cpp)\<close>

text \<open>
  The file is a layer of thin entry points over collaborators that live in other files:
  the task (stack switching, the boxed heap, the stack segments, failing), the kernel
  (the process-wide allocator), the logging sink and the debug tracker. The embedding
  keeps the entry points as they are written and makes every call to a collaborator
  visible twice: as an event appended to a trace, and as the effect the call has on an
  explicit state. Where a collaborator's code is not part of the examined source, its
  effect is modelled from the specification and the definition says so.

  An address is a natural number and 0 is the null pointer. No function of the file does
  arithmetic on a \<open>size_t\<close> or \<open>uintptr_t\<close>, so their width plays no role here.
  A \<open>type_desc *\<close> argument is modelled by the descriptor it points to; in a box
  header, whose memory may be zeroed, the field is an option and \<open>None\<close> is null.
\<close>

subsection \<open>Data\<close>

type_synonym addr = nat

text \<open>The two fields of a type descriptor that the runtime reads.\<close>

record type_desc =
  td_size :: nat
  td_align :: nat

text \<open>\<open>rust_opaque_box\<close>: the header of a box.\<close>

record rust_opaque_box =
  ref_count :: int
  td :: "type_desc option"
  prev :: addr
  nxt :: addr

text \<open>A block of allocated memory: its footprint in bytes and the header at its start.\<close>

record block =
  blk_size :: nat
  blk_box :: rust_opaque_box

definition zero_box :: rust_opaque_box where
  "zero_box = \<lparr>ref_count = 0, td = None, prev = 0, nxt = 0\<rparr>"

datatype stack_kind = RustStack | CStack

text \<open>A segment of the guest stack: the frame base handed to generated code, the size
  it was obtained for, and the argument block (address, size) relocated onto it.\<close>

record stk_seg =
  seg_base :: addr
  seg_size :: nat
  seg_args :: "addr \<times> nat"

text \<open>
  What the upcalls reach of a \<open>rust_task\<close>: its name and its scheduler loop
  (both only logged), the stack its thread currently runs on, the chain of guest-stack
  segments (current first), the live allocations of its boxed heap (newest first),
  and the failure recorded for it, if any.
\<close>

record rust_task =
  name :: string
  sched_loop :: addr
  on_stack :: stack_kind
  stk :: "stk_seg list"
  boxed :: "(addr \<times> block) list"
  failure :: "(string \<times> string \<times> nat) option"

text \<open>An argument of a log line: a string, a pointer, a number, a pointer to a type
  descriptor, the body pointer \<open>box_body(box)\<close> of the box at an address, or the
  return address of the running function.\<close>

datatype log_arg = S string | P addr | N nat | D type_desc | Body addr | Retpc

text \<open>Calls to collaborators, in the order they happen.\<close>

datatype event =
    Log addr string string "log_arg list"
  | DLog addr string string "log_arg list"
  | Stack_switch addr stack_kind
  | Kernel_calloc nat string addr
  | Kernel_free addr
  | Boxed_calloc addr type_desc nat addr
  | Boxed_free addr addr
  | Track_origin addr addr
  | Untrack_origin addr addr
  | Task_fail addr string string nat
  | Next_stack addr nat addr nat addr
  | Prev_stack addr
  | Reset_stack_limit addr
  | Assertion_failed string

text \<open>
  The state: the task objects by address, the task of the running thread, the live
  blocks of the process-wide allocator (newest first), the highest address any
  allocator has handed out, and the trace.
\<close>

record world =
  tasks :: "addr \<Rightarrow> rust_task"
  cur_task :: addr
  kernel :: "(addr \<times> block) list"
  brk :: addr
  trace :: "event list"

text \<open>
  How a call ends: it returns a value, a C++ exception (a failing task) propagates out
  of it, or the process is aborted.
\<close>

datatype 'a outcome = Returns 'a world | Unwinds world | Aborts world

fun world_of :: "'a outcome \<Rightarrow> world" where
  "world_of (Returns a w) = w"
| "world_of (Unwinds w) = w"
| "world_of (Aborts w) = w"

fun returned :: "'a outcome \<Rightarrow> 'a option" where
  "returned (Returns a w) = Some a"
| "returned (Unwinds w) = None"
| "returned (Aborts w) = None"

fun unwinds :: "'a outcome \<Rightarrow> bool" where
  "unwinds (Returns a w) = False"
| "unwinds (Unwinds w) = True"
| "unwinds (Aborts w) = False"

fun aborts :: "'a outcome \<Rightarrow> bool" where
  "aborts (Returns a w) = False"
| "aborts (Unwinds w) = False"
| "aborts (Aborts w) = True"

text \<open>The events a run from \<open>w\<close> to \<open>w'\<close> appended to the trace.\<close>

definition emitted :: "world \<Rightarrow> world \<Rightarrow> event list" where
  "emitted w w' = drop (length (trace w)) (trace w')"

fun is_switch :: "event \<Rightarrow> bool" where
  "is_switch (Stack_switch t s) = True"
| "is_switch _ = False"

text \<open>Calls other than log lines and stack switches.\<close>

fun is_call :: "event \<Rightarrow> bool" where
  "is_call (Log t c f as) = False"
| "is_call (DLog t c f as) = False"
| "is_call (Stack_switch t s) = False"
| "is_call _ = True"

fun is_tracking :: "event \<Rightarrow> bool" where
  "is_tracking (Track_origin t p) = True"
| "is_tracking (Untrack_origin t p) = True"
| "is_tracking _ = False"

subsection \<open>Collaborators\<close>

definition emit :: "event \<Rightarrow> world \<Rightarrow> world" where
  "emit e w = w\<lparr>trace := trace w @ [e]\<rparr>"

definition upd_task :: "addr \<Rightarrow> (rust_task \<Rightarrow> rust_task) \<Rightarrow> world \<Rightarrow> world" where
  "upd_task t f w = w\<lparr>tasks := (tasks w)(t := f (tasks w t))\<rparr>"

text \<open>
  Modelled from the spec: \<open>current_task() -> TaskHandle\<close>, the process-wide
  lookup, in the source \<open>rust_get_current_task\<close>, whose code is not in the examined
  file.
\<close>

definition rust_get_current_task :: "world \<Rightarrow> addr" where
  "rust_get_current_task w = cur_task w"

text \<open>
  Modelled from the spec: \<open>emit(task, category, formatted_message)\<close> of the
  diagnostic sink, in the source the macros \<open>LOG\<close> (for a task) and \<open>DLOG\<close>
  (for a scheduler loop), which the examined file uses and does not define. It is
  fire-and-forget: the statement is recorded, with its format and arguments, whatever
  the log level, and nothing else changes.
\<close>

definition LOG :: "addr \<Rightarrow> string \<Rightarrow> string \<Rightarrow> log_arg list \<Rightarrow> world \<Rightarrow> world" where
  "LOG task field fmt args = emit (Log task field fmt args)"

definition DLOG :: "addr \<Rightarrow> string \<Rightarrow> string \<Rightarrow> log_arg list \<Rightarrow> world \<Rightarrow> world" where
  "DLOG sched field fmt args = emit (DLog sched field fmt args)"

text \<open>\<open>LOG_UPCALL_ENTRY\<close>, the macro of the file, in its variant for GNU compilers;
  \<open>__FUNCTION__\<close> is passed by the function that uses the macro.\<close>

definition LOG_UPCALL_ENTRY :: "string \<Rightarrow> addr \<Rightarrow> world \<Rightarrow> world" where
  "LOG_UPCALL_ENTRY fname task w =
     LOG task ''upcall'' ''> UPCALL %s - task: %s 0x%PRIxPTR retpc: x%PRIxPTR''
       [S fname, S (name (tasks w task)), P task, Retpc] w"

text \<open>
  Modelled from the spec: \<open>task.is_on_native_stack()\<close>, in the source
  \<open>rust_task::on_rust_stack\<close>, whose code is not in the examined file.
\<close>

definition on_rust_stack :: "addr \<Rightarrow> world \<Rightarrow> bool" where
  "on_rust_stack t w = (on_stack (tasks w t) = RustStack)"

text \<open>The stack the running thread executes on: that of its current task.\<close>

definition running_on :: "world \<Rightarrow> stack_kind" where
  "running_on w = on_stack (tasks w (cur_task w))"

text \<open>The transfer of the task's thread to a stack, the step of the two calls below.\<close>

definition switch_stack :: "addr \<Rightarrow> stack_kind \<Rightarrow> world \<Rightarrow> world" where
  "switch_stack t s w = emit (Stack_switch t s) (upd_task t (\<lambda>T. T\<lparr>on_stack := s\<rparr>) w)"

text \<open>
  Modelled from the spec: \<open>switch_and_call\<close> (section 4.1), in the source
  \<open>rust_task::call_on_c_stack\<close>, whose code is not in the examined file. It transfers
  to the native stack, invokes the handler on the argument record, and transfers back
  to the stack that was active at the call site; already on the native stack it is a
  direct call. A handler that does not return leaves through it. The handler receives
  the argument record and gives it back with the fields it wrote.
\<close>

definition call_on_c_stack ::
  "addr \<Rightarrow> 'a \<Rightarrow> ('a \<Rightarrow> world \<Rightarrow> 'a outcome) \<Rightarrow> world \<Rightarrow> 'a outcome" where
  "call_on_c_stack t args fn_ptr w =
     (if on_rust_stack t w then
        (case fn_ptr args (switch_stack t CStack w) of
           Returns a w' \<Rightarrow> Returns a (switch_stack t RustStack w')
         | Unwinds w' \<Rightarrow> Unwinds w'
         | Aborts w' \<Rightarrow> Aborts w')
      else fn_ptr args w)"

text \<open>
  Modelled from the spec: the mirror of \<open>switch_and_call\<close> (section 4.4), in the
  source \<open>rust_task::call_on_rust_stack\<close>, whose code is not in the examined file.
\<close>

definition call_on_rust_stack ::
  "addr \<Rightarrow> 'a \<Rightarrow> ('a \<Rightarrow> world \<Rightarrow> 'a outcome) \<Rightarrow> world \<Rightarrow> 'a outcome" where
  "call_on_rust_stack t args fn_ptr w =
     (if on_rust_stack t w then fn_ptr args w
      else
        (case fn_ptr args (switch_stack t RustStack w) of
           Returns a w' \<Rightarrow> Returns a (switch_stack t CStack w')
         | Unwinds w' \<Rightarrow> Unwinds w'
         | Aborts w' \<Rightarrow> Aborts w'))"

text \<open>
  Modelled from the spec: \<open>allocate_zeroed(size) -> pointer\<close> of the process-wide
  allocator, in the source \<open>rust_kernel::calloc\<close>, whose code is not in the examined
  file. The pointer is a new non-null address; the block has the requested footprint
  and is all zero. The upcall does not test the pointer, and exhaustion is the
  allocator's own business: the model's address space is unbounded.
\<close>

definition kernel_calloc :: "nat \<Rightarrow> string \<Rightarrow> world \<Rightarrow> addr \<times> world" where
  "kernel_calloc n tag w =
     (let p = Suc (brk w)
      in (p, emit (Kernel_calloc n tag p)
               (w\<lparr>kernel := (p, \<lparr>blk_size = n, blk_box = zero_box\<rparr>) # kernel w,
                  brk := p + n\<rparr>)))"

text \<open>Releasing a block takes it out of a list of live blocks.\<close>

fun remove_alloc :: "addr \<Rightarrow> (addr \<times> block) list \<Rightarrow> (addr \<times> block) list" where
  "remove_alloc p [] = []"
| "remove_alloc p ((a, b) # xs) = (if a = p then xs else (a, b) # remove_alloc p xs)"

text \<open>
  Modelled from the spec: \<open>release(pointer)\<close> of the process-wide allocator, in the
  source \<open>rust_kernel::free\<close>, whose code is not in the examined file. Releasing a
  pointer the allocator does not hold is undefined by contract and not detected; the
  model leaves the live blocks as they are there.
\<close>

definition kernel_free :: "addr \<Rightarrow> world \<Rightarrow> world" where
  "kernel_free p w = emit (Kernel_free p) (w\<lparr>kernel := remove_alloc p (kernel w)\<rparr>)"

text \<open>A write through a header pointer into memory of the process-wide allocator.\<close>

definition update_box ::
  "addr \<Rightarrow> (rust_opaque_box \<Rightarrow> rust_opaque_box) \<Rightarrow> (addr \<times> block) list \<Rightarrow> (addr \<times> block) list" where
  "update_box p f bs =
     map (\<lambda>(a, b). if a = p then (a, b\<lparr>blk_box := f (blk_box b)\<rparr>) else (a, b)) bs"

definition store_header :: "addr \<Rightarrow> (rust_opaque_box \<Rightarrow> rust_opaque_box) \<Rightarrow> world \<Rightarrow> world" where
  "store_header p f w = w\<lparr>kernel := update_box p f (kernel w)\<rparr>"

text \<open>The same write into memory of a task's boxed heap.\<close>

definition store_boxed_header ::
  "addr \<Rightarrow> addr \<Rightarrow> (rust_opaque_box \<Rightarrow> rust_opaque_box) \<Rightarrow> world \<Rightarrow> world" where
  "store_boxed_header t p f w = upd_task t (\<lambda>T. T\<lparr>boxed := update_box p f (boxed T)\<rparr>) w"

text \<open>
  Modelled from the spec: \<open>task.local_heap.allocate(type_desc, size) -> header\<close>
  (section 4.2, task-local allocate), in the source \<open>boxed_region::calloc\<close>, whose code
  is not in the examined file. It computes the footprint from the size and the
  descriptor's alignment, obtains zeroed memory from the task's heap, installs the
  header (a tracked reference count, for which the model takes 1; the type
  descriptor; no links) and enters the box in the task's list of live allocations.
  \<open>get_box_size\<close> is a parameter: its code is not in the examined file either.
\<close>

definition boxed_calloc ::
  "(nat \<Rightarrow> nat \<Rightarrow> nat) \<Rightarrow> addr \<Rightarrow> type_desc \<Rightarrow> nat \<Rightarrow> world \<Rightarrow> addr \<times> world" where
  "boxed_calloc get_box_size t tydesc body_size w =
     (let p = Suc (brk w);
          total_size = get_box_size body_size (td_align tydesc);
          box = \<lparr>ref_count = 1, td = Some tydesc, prev = 0, nxt = 0\<rparr>
      in (p, emit (Boxed_calloc t tydesc body_size p)
               (upd_task t (\<lambda>T. T\<lparr>boxed := (p, \<lparr>blk_size = total_size, blk_box = box\<rparr>) # boxed T\<rparr>)
                  (w\<lparr>brk := p + total_size\<rparr>))))"

text \<open>
  Modelled from the spec: \<open>task.local_heap.free(header)\<close> (section 4.2, task-local
  free), in the source \<open>boxed_region::free\<close>, whose code is not in the examined file. It
  takes the box out of the task's list of live allocations. Freeing a header that is
  not live is undefined by contract; the model leaves the list as it is there.
\<close>

definition boxed_free :: "addr \<Rightarrow> addr \<Rightarrow> world \<Rightarrow> world" where
  "boxed_free t p w =
     emit (Boxed_free t p) (upd_task t (\<lambda>T. T\<lparr>boxed := remove_alloc p (boxed T)\<rparr>) w)"

text \<open>
  Modelled from the spec: \<open>track(task, header)\<close> and \<open>untrack(task, pointer)\<close>
  of the debug tracker, in the source \<open>debug::maybe_track_origin\<close> and
  \<open>debug::maybe_untrack_origin\<close>, whose code is not in the examined file. The
  tracker keeps its own books, a no-op when disabled; the call is recorded.
\<close>

definition maybe_track_origin :: "addr \<Rightarrow> addr \<Rightarrow> world \<Rightarrow> world" where
  "maybe_track_origin task p = emit (Track_origin task p)"

definition maybe_untrack_origin :: "addr \<Rightarrow> addr \<Rightarrow> world \<Rightarrow> world" where
  "maybe_untrack_origin task p = emit (Untrack_origin task p)"

text \<open>
  Modelled from the spec: \<open>fail(task, expr, file, line)\<close> (sections 4.4 and 7), in the
  source \<open>rust_task::fail\<close>, whose code is not in the examined file. It marks the task
  as failing, records the originating expression, file and line, and begins the
  task's shutdown by unwinding: it does not return to its caller.
\<close>

definition task_fail :: "addr \<Rightarrow> string \<Rightarrow> string \<Rightarrow> nat \<Rightarrow> world \<Rightarrow> 'a outcome" where
  "task_fail t expr file line w =
     Unwinds (emit (Task_fail t expr file line)
                (upd_task t (\<lambda>T. T\<lparr>failure := Some (expr, file, line)\<rparr>) w))"

text \<open>
  Modelled from the spec: \<open>grow_stack(requested_size, args_addr, args_size) ->
  new_frame_base\<close> (section 4.1), in the source \<open>rust_task::next_stack\<close>, whose code is
  not in the examined file. It obtains a segment that fits the request, relocates the
  argument block onto it, makes it the current segment and returns its frame base.
\<close>

definition next_stack :: "addr \<Rightarrow> nat \<Rightarrow> addr \<Rightarrow> nat \<Rightarrow> world \<Rightarrow> addr \<times> world" where
  "next_stack t stk_sz args_addr args_sz w =
     (let p = Suc (brk w);
          seg = \<lparr>seg_base = p, seg_size = stk_sz + args_sz, seg_args = (args_addr, args_sz)\<rparr>
      in (seg_base seg,
          emit (Next_stack t stk_sz args_addr args_sz p)
            (upd_task t (\<lambda>T. T\<lparr>stk := seg # stk T\<rparr>) (w\<lparr>brk := p + (stk_sz + args_sz)\<rparr>))))"

text \<open>
  Modelled from the spec: \<open>shrink_stack()\<close> (section 4.1), in the source
  \<open>rust_task::prev_stack\<close>, whose code is not in the examined file. It retires the most
  recently acquired segment and restores the previous one as current. With no segment
  there is nothing to retire: the call is outside its contract and the model leaves
  the chain empty.
\<close>

definition prev_stack :: "addr \<Rightarrow> world \<Rightarrow> world" where
  "prev_stack t w =
     emit (Prev_stack t)
       (upd_task t (\<lambda>T. T\<lparr>stk := (case stk T of [] \<Rightarrow> [] | s # rest \<Rightarrow> rest)\<rparr>) w)"

text \<open>The frame base generated code runs on: that of the current segment, null with
  no segment.\<close>

definition frame_base :: "addr \<Rightarrow> world \<Rightarrow> addr" where
  "frame_base t w = (case stk (tasks w t) of [] \<Rightarrow> 0 | s # rest \<Rightarrow> seg_base s)"

text \<open>
  Modelled from the spec: \<open>refresh_stack_limit()\<close> (section 4.1), in the source
  \<open>rust_task::reset_stack_limit\<close>, whose code is not in the examined file. The guard
  boundary is not part of the state; the call is recorded.
\<close>

definition reset_stack_limit :: "addr \<Rightarrow> world \<Rightarrow> world" where
  "reset_stack_limit t = emit (Reset_stack_limit t)"

text \<open>
  \<open>assert(false && msg)\<close>: the file is compiled with assertions on (it defines no
  \<open>NDEBUG\<close>, and its comments call this "fail hard"), so the failed assertion
  prints its message and aborts the process.
\<close>

definition assert_false :: "string \<Rightarrow> world \<Rightarrow> 'a outcome" where
  "assert_false msg w = Aborts (emit (Assertion_failed msg) w)"

subsection \<open>The upcalls\<close>

definition call_upcall_on_c_stack ::
  "addr \<Rightarrow> 'a \<Rightarrow> ('a \<Rightarrow> world \<Rightarrow> 'a outcome) \<Rightarrow> world \<Rightarrow> 'a outcome" where
  "call_upcall_on_c_stack task args fn_ptr w = call_on_c_stack task args fn_ptr w"

definition UPCALL_SWITCH_STACK ::
  "addr \<Rightarrow> 'a \<Rightarrow> ('a \<Rightarrow> world \<Rightarrow> 'a outcome) \<Rightarrow> world \<Rightarrow> 'a outcome" where
  "UPCALL_SWITCH_STACK T A F w = call_upcall_on_c_stack T A F w"

text \<open>
  \<open>upcall_call_shim_on_c_stack\<close> and \<open>upcall_call_shim_on_rust_stack\<close>: the
  \<open>try\<close> block is the call, the \<open>catch (...)\<close> block is the failed assertion.
\<close>

definition upcall_call_shim_on_c_stack ::
  "'a \<Rightarrow> ('a \<Rightarrow> world \<Rightarrow> 'a outcome) \<Rightarrow> world \<Rightarrow> 'a outcome" where
  "upcall_call_shim_on_c_stack args fn_ptr w =
     (let task = rust_get_current_task w
      in case call_on_c_stack task args fn_ptr w of
           Returns a w' \<Rightarrow> Returns a w'
         | Unwinds w' \<Rightarrow> assert_false ''Foreign code threw an exception'' w'
         | Aborts w' \<Rightarrow> Aborts w')"

definition upcall_call_shim_on_rust_stack ::
  "'a \<Rightarrow> ('a \<Rightarrow> world \<Rightarrow> 'a outcome) \<Rightarrow> world \<Rightarrow> 'a outcome" where
  "upcall_call_shim_on_rust_stack args fn_ptr w =
     (let task = rust_get_current_task w
      in case call_on_rust_stack task args fn_ptr w of
           Returns a w' \<Rightarrow> Returns a w'
         | Unwinds w' \<Rightarrow> assert_false ''Rust task failed after reentering the Rust stack'' w'
         | Aborts w' \<Rightarrow> Aborts w')"

text \<open>The argument records. Field names carry the record's name, since Isabelle keeps
  one name space for the fields of all records.\<close>

record s_fail_args =
  fail_task :: addr
  fail_expr :: string
  fail_file :: string
  fail_line :: nat

definition upcall_s_fail :: "s_fail_args \<Rightarrow> world \<Rightarrow> s_fail_args outcome" where
  "upcall_s_fail args w =
     (let task = fail_task args;
          w1 = LOG_UPCALL_ENTRY ''upcall_s_fail'' task w
      in task_fail task (fail_expr args) (fail_file args) (fail_line args) w1)"

definition upcall_fail :: "string \<Rightarrow> string \<Rightarrow> nat \<Rightarrow> world \<Rightarrow> unit outcome" where
  "upcall_fail expr file line w =
     (let task = rust_get_current_task w;
          args = \<lparr>fail_task = task, fail_expr = expr, fail_file = file, fail_line = line\<rparr>
      in map_outcome (\<lambda>a. ()) (UPCALL_SWITCH_STACK task args upcall_s_fail w))"

definition rust_upcall_fail :: "string \<Rightarrow> string \<Rightarrow> nat \<Rightarrow> world \<Rightarrow> unit outcome" where
  "rust_upcall_fail expr file line w = upcall_fail expr file line w"

record s_trace_args =
  trace_task :: addr
  trace_msg :: string
  trace_file :: string
  trace_line :: nat

definition upcall_s_trace :: "s_trace_args \<Rightarrow> world \<Rightarrow> s_trace_args outcome" where
  "upcall_s_trace args w =
     (let task = trace_task args;
          w1 = LOG_UPCALL_ENTRY ''upcall_s_trace'' task w;
          w2 = LOG task ''trace'' ''Trace %s:%d: %s''
                 [S (trace_file args), N (trace_line args), S (trace_msg args)] w1
      in Returns args w2)"

definition upcall_trace :: "string \<Rightarrow> string \<Rightarrow> nat \<Rightarrow> world \<Rightarrow> unit outcome" where
  "upcall_trace msg file line w =
     (let task = rust_get_current_task w;
          args = \<lparr>trace_task = task, trace_msg = msg, trace_file = file, trace_line = line\<rparr>
      in map_outcome (\<lambda>a. ()) (UPCALL_SWITCH_STACK task args upcall_s_trace w))"

text \<open>Allocate an object in the exchange heap. \<open>get_box_size\<close> (body size,
  body alignment) is a parameter: its code is not in the examined file.\<close>

record s_exchange_malloc_args =
  xm_task :: addr
  xm_retval :: addr
  xm_td :: type_desc
  xm_size :: nat

definition upcall_s_exchange_malloc ::
  "(nat \<Rightarrow> nat \<Rightarrow> nat) \<Rightarrow> s_exchange_malloc_args \<Rightarrow> world \<Rightarrow> s_exchange_malloc_args outcome" where
  "upcall_s_exchange_malloc get_box_size args w =
     (let task = xm_task args;
          w1 = LOG_UPCALL_ENTRY ''upcall_s_exchange_malloc'' task w;
          total_size = get_box_size (xm_size args) (td_align (xm_td args));
          (p, w2) = kernel_calloc total_size ''exchange malloc'' w1;
          header = p;
          w3 = store_header header (\<lambda>b. b\<lparr>ref_count := - 1\<rparr>) w2;
          w4 = store_header header (\<lambda>b. b\<lparr>td := Some (xm_td args)\<rparr>) w3;
          w5 = store_header header (\<lambda>b. b\<lparr>prev := 0\<rparr>) w4;
          w6 = store_header header (\<lambda>b. b\<lparr>nxt := 0\<rparr>) w5;
          w7 = LOG task ''mem'' ''exchange malloced %p of size %PRIuPTR''
                 [P header, N (xm_size args)] w6
      in Returns (args\<lparr>xm_retval := header\<rparr>) w7)"

definition upcall_exchange_malloc ::
  "(nat \<Rightarrow> nat \<Rightarrow> nat) \<Rightarrow> type_desc \<Rightarrow> nat \<Rightarrow> world \<Rightarrow> addr outcome" where
  "upcall_exchange_malloc get_box_size tydesc sz w =
     (let task = rust_get_current_task w;
          args = \<lparr>xm_task = task, xm_retval = 0, xm_td = tydesc, xm_size = sz\<rparr>
      in map_outcome xm_retval
           (UPCALL_SWITCH_STACK task args (upcall_s_exchange_malloc get_box_size) w))"

definition rust_upcall_exchange_malloc ::
  "(nat \<Rightarrow> nat \<Rightarrow> nat) \<Rightarrow> type_desc \<Rightarrow> nat \<Rightarrow> world \<Rightarrow> addr outcome" where
  "rust_upcall_exchange_malloc get_box_size tydesc sz w =
     upcall_exchange_malloc get_box_size tydesc sz w"

record s_exchange_free_args =
  xf_task :: addr
  xf_ptr :: addr

definition upcall_s_exchange_free ::
  "s_exchange_free_args \<Rightarrow> world \<Rightarrow> s_exchange_free_args outcome" where
  "upcall_s_exchange_free args w =
     (let task = xf_task args;
          w1 = LOG_UPCALL_ENTRY ''upcall_s_exchange_free'' task w;
          w2 = LOG task ''mem'' ''exchange freed %p'' [P (xf_ptr args)] w1
      in Returns args (kernel_free (xf_ptr args) w2))"

definition upcall_exchange_free :: "addr \<Rightarrow> world \<Rightarrow> unit outcome" where
  "upcall_exchange_free ptr w =
     (let task = rust_get_current_task w;
          args = \<lparr>xf_task = task, xf_ptr = ptr\<rparr>
      in map_outcome (\<lambda>a. ()) (UPCALL_SWITCH_STACK task args upcall_s_exchange_free w))"

definition rust_upcall_exchange_free :: "addr \<Rightarrow> world \<Rightarrow> unit outcome" where
  "rust_upcall_exchange_free ptr w = upcall_exchange_free ptr w"

text \<open>Allocate an object in the task-local heap.\<close>

record s_malloc_args =
  m_task :: addr
  m_retval :: addr
  m_td :: type_desc
  m_size :: nat

definition upcall_s_malloc ::
  "(nat \<Rightarrow> nat \<Rightarrow> nat) \<Rightarrow> s_malloc_args \<Rightarrow> world \<Rightarrow> s_malloc_args outcome" where
  "upcall_s_malloc get_box_size args w =
     (let task = m_task args;
          w1 = LOG_UPCALL_ENTRY ''upcall_s_malloc'' task w;
          w2 = LOG task ''mem'' ''upcall malloc(0x%PRIxPTR)'' [D (m_td args)] w1;
          (box, w3) = boxed_calloc get_box_size task (m_td args) (m_size args) w2;
          body = Body box;
          w4 = maybe_track_origin task box w3;
          w5 = LOG task ''mem''
                 ''upcall malloc(0x%PRIxPTR) = box 0x%PRIxPTR with body 0x%PRIxPTR''
                 [D (m_td args), P box, body] w4
      in Returns (args\<lparr>m_retval := box\<rparr>) w5)"

definition upcall_malloc ::
  "(nat \<Rightarrow> nat \<Rightarrow> nat) \<Rightarrow> type_desc \<Rightarrow> nat \<Rightarrow> world \<Rightarrow> addr outcome" where
  "upcall_malloc get_box_size tydesc sz w =
     (let task = rust_get_current_task w;
          args = \<lparr>m_task = task, m_retval = 0, m_td = tydesc, m_size = sz\<rparr>
      in map_outcome m_retval
           (UPCALL_SWITCH_STACK task args (upcall_s_malloc get_box_size) w))"

definition rust_upcall_malloc ::
  "(nat \<Rightarrow> nat \<Rightarrow> nat) \<Rightarrow> type_desc \<Rightarrow> nat \<Rightarrow> world \<Rightarrow> addr outcome" where
  "rust_upcall_malloc get_box_size tydesc sz w = upcall_malloc get_box_size tydesc sz w"

text \<open>Called whenever an object in the task-local heap is freed.\<close>

record s_free_args =
  f_task :: addr
  f_ptr :: addr

definition upcall_s_free :: "s_free_args \<Rightarrow> world \<Rightarrow> s_free_args outcome" where
  "upcall_s_free args w =
     (let task = f_task args;
          w1 = LOG_UPCALL_ENTRY ''upcall_s_free'' task w;
          sched = sched_loop (tasks w1 task);
          w2 = DLOG sched ''mem'' ''upcall free(0x%PRIxPTR, is_gc=%PRIdPTR)''
                 [P (f_ptr args)] w1;
          w3 = maybe_untrack_origin task (f_ptr args) w2;
          box = f_ptr args
      in Returns args (boxed_free task box w3))"

definition upcall_free :: "addr \<Rightarrow> world \<Rightarrow> unit outcome" where
  "upcall_free ptr w =
     (let task = rust_get_current_task w;
          args = \<lparr>f_task = task, f_ptr = ptr\<rparr>
      in map_outcome (\<lambda>a. ()) (UPCALL_SWITCH_STACK task args upcall_s_free w))"

definition rust_upcall_free :: "addr \<Rightarrow> world \<Rightarrow> unit outcome" where
  "rust_upcall_free ptr w = upcall_free ptr w"

text \<open>Sanity checks on boxes: the body is \<open>abort()\<close>.\<close>

definition upcall_validate_box :: "addr \<Rightarrow> world \<Rightarrow> unit outcome" where
  "upcall_validate_box ptr w = Aborts w"

text \<open>
  The personality routine. \<open>__gxx_personality_v0\<close> belongs to the C++ runtime and is
  a parameter; its first argument is the stack it is run on, so that a result which
  depended on the stack would show. \<open>_Unwind_Action\<close> and \<open>_Unwind_Reason_Code\<close>
  are the integers of their C types.
\<close>

type_synonym personality =
  "stack_kind \<Rightarrow> int \<Rightarrow> int \<Rightarrow> 64 word \<Rightarrow> addr \<Rightarrow> addr \<Rightarrow> int"

record s_rust_personality_args =
  p_retval :: int
  p_version :: int
  p_actions :: int
  p_exception_class :: "64 word"
  p_ue_header :: addr
  p_context :: addr

definition upcall_s_rust_personality ::
  "personality \<Rightarrow> s_rust_personality_args \<Rightarrow> world \<Rightarrow> s_rust_personality_args outcome" where
  "upcall_s_rust_personality gxx_personality_v0 args w =
     Returns
       (args\<lparr>p_retval :=
          gxx_personality_v0 (running_on w)
            (p_version args) (p_actions args) (p_exception_class args)
            (p_ue_header args) (p_context args)\<rparr>)
       w"

definition upcall_rust_personality ::
  "personality \<Rightarrow> int \<Rightarrow> int \<Rightarrow> 64 word \<Rightarrow> addr \<Rightarrow> addr \<Rightarrow> world \<Rightarrow> int outcome" where
  "upcall_rust_personality gxx_personality_v0 version actions exception_class ue_header ctx w =
     (let args = \<lparr>p_retval = 0, p_version = version, p_actions = actions,
                  p_exception_class = exception_class, p_ue_header = ue_header,
                  p_context = ctx\<rparr>;
          task = rust_get_current_task w
      in map_outcome p_retval
           (if on_rust_stack task w
            then UPCALL_SWITCH_STACK task args (upcall_s_rust_personality gxx_personality_v0) w
            else upcall_s_rust_personality gxx_personality_v0 args w))"

definition upcall_log_type :: "type_desc \<Rightarrow> addr \<Rightarrow> 32 word \<Rightarrow> world \<Rightarrow> unit outcome" where
  "upcall_log_type tydesc data level w = Aborts w"

text \<open>The two stack-growth entry points and the limit reset: no argument record, no
  switch.\<close>

definition upcall_new_stack :: "nat \<Rightarrow> addr \<Rightarrow> nat \<Rightarrow> world \<Rightarrow> addr outcome" where
  "upcall_new_stack stk_sz args_addr args_sz w =
     (let task = rust_get_current_task w;
          (p, w1) = next_stack task stk_sz args_addr args_sz w
      in Returns p w1)"

definition upcall_del_stack :: "world \<Rightarrow> unit outcome" where
  "upcall_del_stack w =
     (let task = rust_get_current_task w
      in Returns () (prev_stack task w))"

definition upcall_reset_stack_limit :: "world \<Rightarrow> unit outcome" where
  "upcall_reset_stack_limit w =
     (let task = rust_get_current_task w
      in Returns () (reset_stack_limit task w))"


section \<open>A state whose allocations lie below the highest address handed out\<close>

text \<open>No live block of the process-wide allocator and no live box of any task lies
  above the highest address handed out.\<close>

definition heap_bounded :: "world \<Rightarrow> bool" where
  "heap_bounded w \<longleftrightarrow>
     (\<forall>a \<in> fst ` set (kernel w). a \<le> brk w) \<and>
     (\<forall>t. \<forall>a \<in> fst ` set (boxed (tasks w t)). a \<le> brk w)"

section \<open>Example inputs\<close>

text \<open>
  A footprint function of the expected shape (a header of 32 bytes rounded up to the
  body's alignment, then the body), a type descriptor of size 16 and alignment 8, and
  a state whose current task, at address 7, runs on the guest stack with one segment
  and no allocation; the allocators have handed out addresses up to 4096.
\<close>

definition example_box_size :: "nat \<Rightarrow> nat \<Rightarrow> nat" where
  "example_box_size body_size body_align =
     ((32 + body_align - 1) div body_align) * body_align + body_size"

definition example_td :: type_desc where
  "example_td = \<lparr>td_size = 16, td_align = 8\<rparr>"

definition example_task :: rust_task where
  "example_task =
     \<lparr>name = ''main'', sched_loop = 3, on_stack = RustStack,
      stk = [\<lparr>seg_base = 1024, seg_size = 512, seg_args = (0, 0)\<rparr>],
      boxed = [], failure = None\<rparr>"

definition example_world :: world where
  "example_world =
     \<lparr>tasks = (\<lambda>a. example_task), cur_task = 7, kernel = [], brk = 4096, trace = []\<rparr>"

text \<open>The same state with the thread already on the native stack.\<close>

definition example_world_c :: world where
  "example_world_c = upd_task 7 (\<lambda>T. T\<lparr>on_stack := CStack\<rparr>) example_world"

text \<open>A function that fails: it calls the fail upcall.\<close>

definition failing_fn :: "unit \<Rightarrow> world \<Rightarrow> unit outcome" where
  "failing_fn a w = upcall_fail ''x > 0'' ''file.ext'' 42 w"

text \<open>A personality routine whose result depends on each of its inputs and on the
  stack it runs on.\<close>

definition example_personality :: personality where
  "example_personality s version actions exception_class ue_header ctx =
     (if s = CStack then version + actions + int (unat exception_class) + int ue_header + int ctx
      else - 1)"

section \<open>Facts shared by the proofs\<close>

lemmas switch_defs =
  UPCALL_SWITCH_STACK_def call_upcall_on_c_stack_def call_on_c_stack_def
  call_on_rust_stack_def on_rust_stack_def running_on_def switch_stack_def emit_def
  upd_task_def rust_get_current_task_def LOG_UPCALL_ENTRY_def LOG_def DLOG_def

lemmas heap_defs =
  kernel_calloc_def kernel_free_def store_header_def update_box_def zero_box_def
  boxed_calloc_def boxed_free_def maybe_track_origin_def maybe_untrack_origin_def

lemmas example_defs =
  example_box_size_def example_td_def example_task_def example_world_def
  example_world_c_def failing_fn_def example_personality_def

lemma set_remove_alloc: "set (remove_alloc p xs) \<subseteq> set xs"
  by (induction p xs rule: remove_alloc.induct) auto

lemma remove_alloc_other: "a \<noteq> p \<Longrightarrow> map_of (remove_alloc p xs) a = map_of xs a"
  by (induction p xs rule: remove_alloc.induct) auto

section \<open>The allocators hand out new addresses\<close>

text \<open>
  In a state whose allocations lie below the highest address handed out, the box of an
  allocate upcall is at an address that no live block of the process-wide allocator
  and no live box of any task has, and the state after the upcall is again of that
  kind.
\<close>

lemma fst_update_box: "fst ` set (update_box p f bs) = fst ` set bs"
  by (induction bs) (auto simp add: update_box_def)

lemma exchange_malloc_state:
  "upcall_exchange_malloc get_box_size tydesc sz w = Returns p w' \<Longrightarrow>
     p = Suc (brk w) \<and>
     brk w' = p + get_box_size sz (td_align tydesc) \<and>
     fst ` set (kernel w') = insert p (fst ` set (kernel w)) \<and>
     (\<forall>t. boxed (tasks w' t) = boxed (tasks w t))"
  by (cases "on_stack (tasks w (cur_task w))")
     (clarsimp simp add: upcall_exchange_malloc_def upcall_s_exchange_malloc_def switch_defs
        kernel_calloc_def store_header_def fst_update_box Let_def)+

lemma exchange_malloc_fresh:
  assumes b: "heap_bounded w"
    and r: "upcall_exchange_malloc get_box_size tydesc sz w = Returns p w'"
  shows "p \<notin> fst ` set (kernel w)"
    and "p \<notin> fst ` set (boxed (tasks w' t))"
    and "heap_bounded w'"
proof -
  from exchange_malloc_state [OF r]
  have s: "p = Suc (brk w)" "brk w' = p + get_box_size sz (td_align tydesc)"
    "fst ` set (kernel w') = insert p (fst ` set (kernel w))"
    "\<And>t. boxed (tasks w' t) = boxed (tasks w t)"
    by simp_all
  show "p \<notin> fst ` set (kernel w)"
    using b s(1) by (fastforce simp add: heap_bounded_def)
  show "p \<notin> fst ` set (boxed (tasks w' t))"
    using b s(1) s(4) [of t] by (fastforce simp add: heap_bounded_def)
  show "heap_bounded w'"
    unfolding heap_bounded_def
  proof (intro conjI allI ballI)
    fix a assume "a \<in> fst ` set (kernel w')"
    then have "a = p \<or> a \<in> fst ` set (kernel w)" using s(3) by auto
    then show "a \<le> brk w'" using b s(1) s(2) by (fastforce simp add: heap_bounded_def)
  next
    fix t' a assume "a \<in> fst ` set (boxed (tasks w' t'))"
    then have "a \<in> fst ` set (boxed (tasks w t'))" using s(4) [of t'] by simp
    then show "a \<le> brk w'" using b s(1) s(2) by (fastforce simp add: heap_bounded_def)
  qed
qed

lemma malloc_state:
  "upcall_malloc get_box_size tydesc sz w = Returns p w' \<Longrightarrow>
     p = Suc (brk w) \<and>
     brk w' = p + get_box_size sz (td_align tydesc) \<and>
     kernel w' = kernel w \<and>
     (\<forall>t. fst ` set (boxed (tasks w' t)) =
           (if t = cur_task w then insert p (fst ` set (boxed (tasks w t)))
            else fst ` set (boxed (tasks w t))))"
  by (cases "on_stack (tasks w (cur_task w))")
     (clarsimp simp add: upcall_malloc_def upcall_s_malloc_def switch_defs
        boxed_calloc_def maybe_track_origin_def Let_def)+

lemma malloc_fresh:
  assumes b: "heap_bounded w"
    and r: "upcall_malloc get_box_size tydesc sz w = Returns p w'"
  shows "p \<notin> fst ` set (kernel w')"
    and "p \<notin> fst ` set (boxed (tasks w t))"
    and "heap_bounded w'"
proof -
  from malloc_state [OF r]
  have s: "p = Suc (brk w)" "brk w' = p + get_box_size sz (td_align tydesc)"
    "kernel w' = kernel w"
    "\<And>t. fst ` set (boxed (tasks w' t)) =
           (if t = cur_task w then insert p (fst ` set (boxed (tasks w t)))
            else fst ` set (boxed (tasks w t)))"
    by simp_all
  show "p \<notin> fst ` set (kernel w')"
    using b s(1) s(3) by (fastforce simp add: heap_bounded_def)
  show "p \<notin> fst ` set (boxed (tasks w t))"
    using b s(1) by (fastforce simp add: heap_bounded_def)
  show "heap_bounded w'"
    unfolding heap_bounded_def
  proof (intro conjI allI ballI)
    fix a assume "a \<in> fst ` set (kernel w')"
    then show "a \<le> brk w'" using b s(1) s(2) s(3) by (fastforce simp add: heap_bounded_def)
  next
    fix t' a assume "a \<in> fst ` set (boxed (tasks w' t'))"
    then have "a = p \<or> a \<in> fst ` set (boxed (tasks w t'))"
      using s(4) [of t'] by (auto split: if_splits)
    then show "a \<le> brk w'" using b s(1) s(2) by (fastforce simp add: heap_bounded_def)
  qed
qed

lemma example_world_bounded: "heap_bounded example_world"
  by (simp add: heap_bounded_def example_defs)

section \<open>The claims\<close>

text \<open>
  C1. For every type descriptor and requested size, the exchange-allocate upcall
  returns a non-null pointer to a block of the process-wide allocator whose footprint
  is what \<open>get_box_size\<close> gives for the requested size and the descriptor's
  alignment, requested from the allocator's zeroing entry under that footprint, and
  whose header has reference count \<open>-1\<close>, the given type descriptor, and null
  \<open>prev\<close> and \<open>next\<close> links. The box enters no task's list of live allocations.
\<close>

theorem exchange_malloc_header:
  "\<exists>p w'. upcall_exchange_malloc get_box_size tydesc sz w = Returns p w' \<and> p \<noteq> 0 \<and>
     map_of (kernel w') p =
       Some \<lparr>blk_size = get_box_size sz (td_align tydesc),
             blk_box = \<lparr>ref_count = - 1, td = Some tydesc, prev = 0, nxt = 0\<rparr>\<rparr> \<and>
     Kernel_calloc (get_box_size sz (td_align tydesc)) ''exchange malloc'' p
       \<in> set (emitted w w') \<and>
     (\<forall>t. boxed (tasks w' t) = boxed (tasks w t))"
  by (simp add: upcall_exchange_malloc_def upcall_s_exchange_malloc_def switch_defs
      heap_defs emitted_def Let_def)

theorem exchange_malloc_header_witness:
  "\<exists>w'. upcall_exchange_malloc example_box_size example_td 16 example_world = Returns 4097 w' \<and>
     map_of (kernel w') 4097 =
       Some \<lparr>blk_size = 48,
             blk_box = \<lparr>ref_count = - 1, td = Some example_td, prev = 0, nxt = 0\<rparr>\<rparr>"
proof -
  obtain p w' where
    r: "upcall_exchange_malloc example_box_size example_td 16 example_world = Returns p w'"
    and h: "map_of (kernel w') p =
       Some \<lparr>blk_size = example_box_size 16 (td_align example_td),
             blk_box = \<lparr>ref_count = - 1, td = Some example_td, prev = 0, nxt = 0\<rparr>\<rparr>"
    using exchange_malloc_header [of example_box_size example_td 16 example_world] by blast
  have "returned (upcall_exchange_malloc example_box_size example_td 16 example_world) = Some 4097"
    by (simp add: upcall_exchange_malloc_def upcall_s_exchange_malloc_def switch_defs
        heap_defs example_defs Let_def)
  with r have "p = 4097" by simp
  moreover have "example_box_size 16 (td_align example_td) = 48"
    by (simp add: example_defs)
  ultimately show ?thesis using r h by simp
qed

text \<open>
  C2. For every input tuple the personality wrapper returns what the native
  personality routine produces on those inputs when run on the native stack. Entered
  on the guest stack it switches to the native stack and back; entered on the native
  stack it does not switch. The result is the same for the two entries, and the tasks
  and the allocator are left as they were.
\<close>

theorem rust_personality_transparent:
  "(\<exists>w'. upcall_rust_personality gxx version actions exception_class ue_header ctx w =
          Returns (gxx CStack version actions exception_class ue_header ctx) w' \<and>
        emitted w w' =
          (if on_rust_stack (cur_task w) w
           then [Stack_switch (cur_task w) CStack, Stack_switch (cur_task w) RustStack]
           else []) \<and>
        tasks w' = tasks w \<and> kernel w' = kernel w) \<and>
   returned (upcall_rust_personality gxx version actions exception_class ue_header ctx
               (upd_task (cur_task w) (\<lambda>T. T\<lparr>on_stack := RustStack\<rparr>) w)) =
   returned (upcall_rust_personality gxx version actions exception_class ue_header ctx
               (upd_task (cur_task w) (\<lambda>T. T\<lparr>on_stack := CStack\<rparr>) w))"
proof
  show "\<exists>w'. upcall_rust_personality gxx version actions exception_class ue_header ctx w =
          Returns (gxx CStack version actions exception_class ue_header ctx) w' \<and>
        emitted w w' =
          (if on_rust_stack (cur_task w) w
           then [Stack_switch (cur_task w) CStack, Stack_switch (cur_task w) RustStack]
           else []) \<and>
        tasks w' = tasks w \<and> kernel w' = kernel w"
    by (cases "on_stack (tasks w (cur_task w))")
       (auto simp add: upcall_rust_personality_def upcall_s_rust_personality_def
          switch_defs emitted_def Let_def fun_eq_iff)
next
  show "returned (upcall_rust_personality gxx version actions exception_class ue_header ctx
               (upd_task (cur_task w) (\<lambda>T. T\<lparr>on_stack := RustStack\<rparr>) w)) =
        returned (upcall_rust_personality gxx version actions exception_class ue_header ctx
               (upd_task (cur_task w) (\<lambda>T. T\<lparr>on_stack := CStack\<rparr>) w))"
    by (simp add: upcall_rust_personality_def upcall_s_rust_personality_def switch_defs Let_def)
qed

theorem rust_personality_transparent_witness:
  "returned (upcall_rust_personality example_personality 1 2 3 4 5 example_world) = Some 15 \<and>
   returned (upcall_rust_personality example_personality 1 2 3 4 5 example_world_c) = Some 15 \<and>
   emitted example_world
     (world_of (upcall_rust_personality example_personality 1 2 3 4 5 example_world)) =
     [Stack_switch 7 CStack, Stack_switch 7 RustStack] \<and>
   emitted example_world_c
     (world_of (upcall_rust_personality example_personality 1 2 3 4 5 example_world_c)) = []"
proof -
  have g: "example_personality CStack 1 2 3 4 5 = 15"
    by (simp add: example_defs)
  have s: "on_rust_stack (cur_task example_world) example_world"
     "\<not> on_rust_stack (cur_task example_world_c) example_world_c"
     "cur_task example_world = 7" "cur_task example_world_c = 7"
    by (simp_all add: example_defs on_rust_stack_def upd_task_def)
  from rust_personality_transparent [of example_personality 1 2 3 4 5 example_world]
  obtain w1 where
    "upcall_rust_personality example_personality 1 2 3 4 5 example_world =
       Returns (example_personality CStack 1 2 3 4 5) w1"
    "emitted example_world w1 =
       (if on_rust_stack (cur_task example_world) example_world
        then [Stack_switch (cur_task example_world) CStack,
              Stack_switch (cur_task example_world) RustStack]
        else [])"
    by blast
  moreover
  from rust_personality_transparent [of example_personality 1 2 3 4 5 example_world_c]
  obtain w2 where
    "upcall_rust_personality example_personality 1 2 3 4 5 example_world_c =
       Returns (example_personality CStack 1 2 3 4 5) w2"
    "emitted example_world_c w2 =
       (if on_rust_stack (cur_task example_world_c) example_world_c
        then [Stack_switch (cur_task example_world_c) CStack,
              Stack_switch (cur_task example_world_c) RustStack]
        else [])"
    by blast
  ultimately show ?thesis using g s by simp
qed


text \<open>
  C3. For every function and argument block, neither boundary-crossing entry point
  lets a failure propagate to its caller; and when the invoked function, run on the
  stack the entry point switches to, raises a failure, the entry point aborts the
  process at once, in the state the failure left, with its fixed assertion message.
\<close>

theorem shim_failure_aborts:
  "\<not> unwinds (upcall_call_shim_on_c_stack args fn_ptr w) \<and>
   \<not> unwinds (upcall_call_shim_on_rust_stack args fn_ptr w) \<and>
   (\<forall>w1. fn_ptr args (if on_rust_stack (cur_task w) w
                       then switch_stack (cur_task w) CStack w else w) = Unwinds w1 \<longrightarrow>
      upcall_call_shim_on_c_stack args fn_ptr w =
        Aborts (emit (Assertion_failed ''Foreign code threw an exception'') w1)) \<and>
   (\<forall>w1. fn_ptr args (if on_rust_stack (cur_task w) w
                       then w else switch_stack (cur_task w) RustStack w) = Unwinds w1 \<longrightarrow>
      upcall_call_shim_on_rust_stack args fn_ptr w =
        Aborts (emit (Assertion_failed ''Rust task failed after reentering the Rust stack'') w1))"
proof (intro conjI allI impI)
  show "\<not> unwinds (upcall_call_shim_on_c_stack args fn_ptr w)"
    by (simp add: upcall_call_shim_on_c_stack_def call_on_c_stack_def assert_false_def
        Let_def split: outcome.splits)
next
  show "\<not> unwinds (upcall_call_shim_on_rust_stack args fn_ptr w)"
    by (simp add: upcall_call_shim_on_rust_stack_def call_on_rust_stack_def assert_false_def
        Let_def split: outcome.splits)
next
  fix w1
  assume "fn_ptr args (if on_rust_stack (cur_task w) w
            then switch_stack (cur_task w) CStack w else w) = Unwinds w1"
  then show "upcall_call_shim_on_c_stack args fn_ptr w =
      Aborts (emit (Assertion_failed ''Foreign code threw an exception'') w1)"
    by (simp add: upcall_call_shim_on_c_stack_def call_on_c_stack_def assert_false_def
        rust_get_current_task_def Let_def split: if_splits)
next
  fix w1
  assume "fn_ptr args (if on_rust_stack (cur_task w) w
            then w else switch_stack (cur_task w) RustStack w) = Unwinds w1"
  then show "upcall_call_shim_on_rust_stack args fn_ptr w =
      Aborts (emit (Assertion_failed ''Rust task failed after reentering the Rust stack'') w1)"
    by (simp add: upcall_call_shim_on_rust_stack_def call_on_rust_stack_def assert_false_def
        rust_get_current_task_def Let_def split: if_splits)
qed

theorem shim_failure_aborts_witness:
  "unwinds (failing_fn () (switch_stack 7 CStack example_world)) \<and>
   aborts (upcall_call_shim_on_c_stack () failing_fn example_world) \<and>
   unwinds (failing_fn () (switch_stack 7 RustStack example_world_c)) \<and>
   aborts (upcall_call_shim_on_rust_stack () failing_fn example_world_c) \<and>
   failure (tasks (world_of (upcall_call_shim_on_rust_stack () failing_fn example_world_c)) 7) =
     Some (''x > 0'', ''file.ext'', 42)"
proof -
  have s: "on_rust_stack (cur_task example_world) example_world"
     "\<not> on_rust_stack (cur_task example_world_c) example_world_c"
     "cur_task example_world = 7" "cur_task example_world_c = 7"
    by (simp_all add: example_defs on_rust_stack_def upd_task_def)
  obtain w1 where f1: "failing_fn () (switch_stack 7 CStack example_world) = Unwinds w1"
    by (simp add: example_defs upcall_fail_def upcall_s_fail_def task_fail_def switch_defs Let_def)
  obtain w2 where f2: "failing_fn () (switch_stack 7 RustStack example_world_c) = Unwinds w2"
    and f3: "failure (tasks w2 7) = Some (''x > 0'', ''file.ext'', 42)"
    by (simp add: example_defs upcall_fail_def upcall_s_fail_def task_fail_def switch_defs Let_def)
  have "upcall_call_shim_on_c_stack () failing_fn example_world =
      Aborts (emit (Assertion_failed ''Foreign code threw an exception'') w1)"
    using shim_failure_aborts [of "()" failing_fn example_world] s f1 by simp
  moreover have "upcall_call_shim_on_rust_stack () failing_fn example_world_c =
      Aborts (emit (Assertion_failed ''Rust task failed after reentering the Rust stack'') w2)"
    using shim_failure_aborts [of "()" failing_fn example_world_c] s f2 by simp
  ultimately show ?thesis using f1 f2 f3 by (simp add: emit_def)
qed

text \<open>
  C4. For every type descriptor, size and task, a task-local allocate followed at once
  by a task-local free of the returned header leaves the task's list of live
  allocations as it was before the allocate, in count and in membership; the box is
  in the list in between. Every task and the process-wide allocator are as before.
\<close>

theorem malloc_free_restores_live_allocs:
  "\<exists>box w1 w2.
     upcall_malloc get_box_size tydesc sz w = Returns box w1 \<and>
     upcall_free box w1 = Returns () w2 \<and>
     box \<in> fst ` set (boxed (tasks w1 (cur_task w))) \<and>
     length (boxed (tasks w1 (cur_task w))) = Suc (length (boxed (tasks w (cur_task w)))) \<and>
     boxed (tasks w2 (cur_task w)) = boxed (tasks w (cur_task w)) \<and>
     length (boxed (tasks w2 (cur_task w))) = length (boxed (tasks w (cur_task w))) \<and>
     set (boxed (tasks w2 (cur_task w))) = set (boxed (tasks w (cur_task w))) \<and>
     tasks w2 = tasks w \<and> kernel w2 = kernel w"
  by (cases "on_stack (tasks w (cur_task w))")
     (auto simp add: upcall_malloc_def upcall_s_malloc_def upcall_free_def upcall_s_free_def
        heap_defs switch_defs Let_def fun_eq_iff)

theorem malloc_free_restores_live_allocs_witness:
  "\<exists>w1 w2.
     upcall_malloc example_box_size example_td 16 example_world = Returns 4097 w1 \<and>
     map fst (boxed (tasks w1 7)) = [4097] \<and>
     upcall_free 4097 w1 = Returns () w2 \<and>
     boxed (tasks w2 7) = []"
proof -
  obtain box w1 w2 where
    a: "upcall_malloc example_box_size example_td 16 example_world = Returns box w1"
    and f: "upcall_free box w1 = Returns () w2"
    and l: "boxed (tasks w2 (cur_task example_world)) = boxed (tasks example_world (cur_task example_world))"
    using malloc_free_restores_live_allocs [of example_box_size example_td 16 example_world]
    by blast
  have "returned (upcall_malloc example_box_size example_td 16 example_world) = Some 4097"
    "map fst (boxed (tasks (world_of
        (upcall_malloc example_box_size example_td 16 example_world)) 7)) = [4097]"
    by (simp_all add: upcall_malloc_def upcall_s_malloc_def switch_defs heap_defs
        example_defs Let_def)
  with a have "box = 4097" "map fst (boxed (tasks w1 7)) = [4097]" by simp_all
  moreover have "boxed (tasks example_world (cur_task example_world)) = []"
    "cur_task example_world = 7"
    by (simp_all add: example_defs)
  ultimately show ?thesis using a f l by simp
qed

text \<open>
  C5. For every expression text, file name and line number, the fail upcall does not
  return to the code that invoked it: it leaves by unwinding, and at that point the
  current task is marked as failed with that expression, file and line.
\<close>

theorem fail_records_and_unwinds:
  "\<exists>w'. upcall_fail expr file line w = Unwinds w' \<and>
     returned (upcall_fail expr file line w) = None \<and>
     failure (tasks w' (cur_task w)) = Some (expr, file, line) \<and>
     Task_fail (cur_task w) expr file line \<in> set (emitted w w')"
  by (cases "on_stack (tasks w (cur_task w))")
     (auto simp add: upcall_fail_def upcall_s_fail_def task_fail_def switch_defs
        emitted_def Let_def)

theorem fail_records_and_unwinds_witness:
  "unwinds (upcall_fail ''x > 0'' ''file.ext'' 42 example_world) \<and>
   failure (tasks example_world 7) = None \<and>
   failure (tasks (world_of (upcall_fail ''x > 0'' ''file.ext'' 42 example_world)) 7) =
     Some (''x > 0'', ''file.ext'', 42)"
proof -
  obtain w' where
    "upcall_fail ''x > 0'' ''file.ext'' 42 example_world = Unwinds w'"
    "failure (tasks w' (cur_task example_world)) = Some (''x > 0'', ''file.ext'', 42)"
    using fail_records_and_unwinds [of "''x > 0''" "''file.ext''" 42 example_world] by blast
  moreover have "cur_task example_world = 7" "failure (tasks example_world 7) = None"
    by (simp_all add: example_defs)
  ultimately show ?thesis by simp
qed


text \<open>
  C6, as the code has it. The task-local allocate upcall invokes the debug tracker's
  track hook on the new box, once, and the task-local free upcall invokes the untrack
  hook on the freed pointer, once, whatever the state. The exchange-heap allocate and
  free upcalls invoke neither hook.
\<close>

theorem tracking_hooks_task_local_only:
  "(\<exists>box w'. upcall_malloc get_box_size tydesc sz w = Returns box w' \<and>
       filter is_tracking (emitted w w') = [Track_origin (cur_task w) box]) \<and>
   (\<exists>w'. upcall_free ptr w = Returns () w' \<and>
       filter is_tracking (emitted w w') = [Untrack_origin (cur_task w) ptr]) \<and>
   filter is_tracking
     (emitted w (world_of (upcall_exchange_malloc get_box_size tydesc sz w))) = [] \<and>
   filter is_tracking (emitted w (world_of (upcall_exchange_free ptr w))) = []"
  by (cases "on_stack (tasks w (cur_task w))")
     (auto simp add: upcall_malloc_def upcall_s_malloc_def upcall_free_def upcall_s_free_def
        upcall_exchange_malloc_def upcall_s_exchange_malloc_def upcall_exchange_free_def
        upcall_s_exchange_free_def heap_defs switch_defs emitted_def Let_def)

theorem tracking_hooks_task_local_only_witness:
  "filter is_tracking
     (trace (world_of (upcall_malloc example_box_size example_td 16 example_world))) =
     [Track_origin 7 4097] \<and>
   filter is_tracking (trace (world_of (upcall_free 4097 example_world))) =
     [Untrack_origin 7 4097]"
proof -
  have e: "emitted example_world w' = trace w'" for w'
    by (simp add: emitted_def example_defs)
  have c: "cur_task example_world = 7"
    by (simp add: example_defs)
  have "returned (upcall_malloc example_box_size example_td 16 example_world) = Some 4097"
    by (simp add: upcall_malloc_def upcall_s_malloc_def switch_defs heap_defs
        example_defs Let_def)
  then show ?thesis
    using tracking_hooks_task_local_only [of example_box_size example_td 16 example_world 4097]
    by (auto simp add: e c)
qed

text \<open>
  The claim as it is written fails on the exchange heap: the exchange allocate of the
  example returns the box at 4097 and calls the kernel's allocator and the log, and
  the exchange free of that pointer calls the log and the kernel's release; no call
  to the tracker is among them.
\<close>

theorem exchange_paths_untracked_counterexample:
  "trace (world_of (upcall_exchange_malloc example_box_size example_td 16 example_world)) =
     [Stack_switch 7 CStack,
      Log 7 ''upcall'' ''> UPCALL %s - task: %s 0x%PRIxPTR retpc: x%PRIxPTR''
        [S ''upcall_s_exchange_malloc'', S ''main'', P 7, Retpc],
      Kernel_calloc 48 ''exchange malloc'' 4097,
      Log 7 ''mem'' ''exchange malloced %p of size %PRIuPTR'' [P 4097, N 16],
      Stack_switch 7 RustStack] \<and>
   returned (upcall_exchange_malloc example_box_size example_td 16 example_world) = Some 4097 \<and>
   Track_origin 7 4097 \<notin>
     set (trace (world_of (upcall_exchange_malloc example_box_size example_td 16 example_world))) \<and>
   trace (world_of (upcall_exchange_free 4097 example_world)) =
     [Stack_switch 7 CStack,
      Log 7 ''upcall'' ''> UPCALL %s - task: %s 0x%PRIxPTR retpc: x%PRIxPTR''
        [S ''upcall_s_exchange_free'', S ''main'', P 7, Retpc],
      Log 7 ''mem'' ''exchange freed %p'' [P 4097],
      Kernel_free 4097,
      Stack_switch 7 RustStack] \<and>
   Untrack_origin 7 4097 \<notin> set (trace (world_of (upcall_exchange_free 4097 example_world)))"
  by (simp add: upcall_exchange_malloc_def upcall_s_exchange_malloc_def
      upcall_exchange_free_def upcall_s_exchange_free_def switch_defs heap_defs
      example_defs Let_def)

text \<open>
  C7. For every input, each compatibility alias gives the outcome (the result and the
  state, trace included) of the upcall it is named after.
\<close>

theorem aliases_agree:
  "rust_upcall_fail expr file line w = upcall_fail expr file line w \<and>
   rust_upcall_malloc get_box_size tydesc sz w = upcall_malloc get_box_size tydesc sz w \<and>
   rust_upcall_exchange_malloc get_box_size tydesc sz w =
     upcall_exchange_malloc get_box_size tydesc sz w \<and>
   rust_upcall_exchange_free ptr w = upcall_exchange_free ptr w \<and>
   rust_upcall_free ptr w = upcall_free ptr w"
  by (simp add: rust_upcall_fail_def rust_upcall_malloc_def rust_upcall_exchange_malloc_def
      rust_upcall_exchange_free_def rust_upcall_free_def)

theorem aliases_agree_witness:
  "returned (rust_upcall_malloc example_box_size example_td 16 example_world) = Some 4097 \<and>
   returned (rust_upcall_exchange_malloc example_box_size example_td 16 example_world) = Some 4097 \<and>
   unwinds (rust_upcall_fail ''x > 0'' ''file.ext'' 42 example_world) \<and>
   returned (rust_upcall_exchange_free 4097 example_world) = Some () \<and>
   returned (rust_upcall_free 4097 example_world) = Some ()"
proof -
  have "returned (upcall_malloc example_box_size example_td 16 example_world) = Some 4097"
    "returned (upcall_exchange_malloc example_box_size example_td 16 example_world) = Some 4097"
    "unwinds (upcall_fail ''x > 0'' ''file.ext'' 42 example_world)"
    "returned (upcall_exchange_free 4097 example_world) = Some ()"
    "returned (upcall_free 4097 example_world) = Some ()"
    by (simp_all add: upcall_malloc_def upcall_s_malloc_def upcall_exchange_malloc_def
        upcall_s_exchange_malloc_def upcall_fail_def upcall_s_fail_def task_fail_def
        upcall_exchange_free_def upcall_s_exchange_free_def upcall_free_def upcall_s_free_def
        switch_defs heap_defs example_defs Let_def)
  then show ?thesis
    using aliases_agree [of "''x > 0''" "''file.ext''" 42 example_world
        example_box_size example_td 16 4097]
    by simp
qed

text \<open>
  C8. Neither free path checks anything. For every pointer and every state, whatever
  the pointer refers to, exchange free returns normally and everything it does is
  this, in this order: the switch to the native stack when entered on the guest stack,
  the entry log line, the log line that prints the pointer, the process-wide
  allocator's release on exactly that pointer, and the switch back. Every block that
  remains, header included, every task, and the allocator's highest address are as
  they were. Task-local free returns normally and everything it does is this, in this
  order: the switch, the entry log line, the log line that prints the pointer, the
  debug tracker's untrack on exactly that pointer, the boxed heap's free on exactly
  that pointer, and the switch back. The task's other boxes, every other task and the
  process-wide allocator's blocks are as they were. No log line reports a misuse and
  no line, call or outcome depends on a header: with any other content written to the
  header at the pointer beforehand, in the allocator's memory or in the task's boxed
  heap, each free path returns the same and emits the same.
\<close>

theorem free_paths_unchecked:
  "(\<exists>w'. upcall_exchange_free ptr w = Returns () w' \<and>
      emitted w w' =
        (if on_rust_stack (cur_task w) w then [Stack_switch (cur_task w) CStack] else []) @
        [Log (cur_task w) ''upcall'' ''> UPCALL %s - task: %s 0x%PRIxPTR retpc: x%PRIxPTR''
           [S ''upcall_s_exchange_free'', S (name (tasks w (cur_task w))), P (cur_task w), Retpc],
         Log (cur_task w) ''mem'' ''exchange freed %p'' [P ptr],
         Kernel_free ptr] @
        (if on_rust_stack (cur_task w) w then [Stack_switch (cur_task w) RustStack] else []) \<and>
      filter is_call (emitted w w') = [Kernel_free ptr] \<and>
      kernel w' = remove_alloc ptr (kernel w) \<and>
      set (kernel w') \<subseteq> set (kernel w) \<and>
      tasks w' = tasks w \<and> brk w' = brk w \<and> cur_task w' = cur_task w) \<and>
   (\<exists>w'. upcall_free ptr w = Returns () w' \<and>
      emitted w w' =
        (if on_rust_stack (cur_task w) w then [Stack_switch (cur_task w) CStack] else []) @
        [Log (cur_task w) ''upcall'' ''> UPCALL %s - task: %s 0x%PRIxPTR retpc: x%PRIxPTR''
           [S ''upcall_s_free'', S (name (tasks w (cur_task w))), P (cur_task w), Retpc],
         DLog (sched_loop (tasks w (cur_task w))) ''mem''
           ''upcall free(0x%PRIxPTR, is_gc=%PRIdPTR)'' [P ptr],
         Untrack_origin (cur_task w) ptr,
         Boxed_free (cur_task w) ptr] @
        (if on_rust_stack (cur_task w) w then [Stack_switch (cur_task w) RustStack] else []) \<and>
      filter is_call (emitted w w') =
        [Untrack_origin (cur_task w) ptr, Boxed_free (cur_task w) ptr] \<and>
      boxed (tasks w' (cur_task w)) = remove_alloc ptr (boxed (tasks w (cur_task w))) \<and>
      set (boxed (tasks w' (cur_task w))) \<subseteq> set (boxed (tasks w (cur_task w))) \<and>
      tasks w' =
        (tasks w)(cur_task w :=
           (tasks w (cur_task w))\<lparr>boxed := remove_alloc ptr (boxed (tasks w (cur_task w)))\<rparr>) \<and>
      kernel w' = kernel w \<and> brk w' = brk w \<and> cur_task w' = cur_task w) \<and>
   returned (upcall_exchange_free ptr (store_header ptr f w)) =
     returned (upcall_exchange_free ptr w) \<and>
   emitted (store_header ptr f w) (world_of (upcall_exchange_free ptr (store_header ptr f w))) =
     emitted w (world_of (upcall_exchange_free ptr w)) \<and>
   returned (upcall_exchange_free ptr (store_boxed_header (cur_task w) ptr f w)) =
     returned (upcall_exchange_free ptr w) \<and>
   emitted (store_boxed_header (cur_task w) ptr f w)
       (world_of (upcall_exchange_free ptr (store_boxed_header (cur_task w) ptr f w))) =
     emitted w (world_of (upcall_exchange_free ptr w)) \<and>
   returned (upcall_free ptr (store_header ptr f w)) = returned (upcall_free ptr w) \<and>
   emitted (store_header ptr f w) (world_of (upcall_free ptr (store_header ptr f w))) =
     emitted w (world_of (upcall_free ptr w)) \<and>
   returned (upcall_free ptr (store_boxed_header (cur_task w) ptr f w)) =
     returned (upcall_free ptr w) \<and>
   emitted (store_boxed_header (cur_task w) ptr f w)
       (world_of (upcall_free ptr (store_boxed_header (cur_task w) ptr f w))) =
     emitted w (world_of (upcall_free ptr w))"
proof (intro conjI)
  show "\<exists>w'. upcall_exchange_free ptr w = Returns () w' \<and>
      emitted w w' =
        (if on_rust_stack (cur_task w) w then [Stack_switch (cur_task w) CStack] else []) @
        [Log (cur_task w) ''upcall'' ''> UPCALL %s - task: %s 0x%PRIxPTR retpc: x%PRIxPTR''
           [S ''upcall_s_exchange_free'', S (name (tasks w (cur_task w))), P (cur_task w), Retpc],
         Log (cur_task w) ''mem'' ''exchange freed %p'' [P ptr],
         Kernel_free ptr] @
        (if on_rust_stack (cur_task w) w then [Stack_switch (cur_task w) RustStack] else []) \<and>
      filter is_call (emitted w w') = [Kernel_free ptr] \<and>
      kernel w' = remove_alloc ptr (kernel w) \<and>
      set (kernel w') \<subseteq> set (kernel w) \<and>
      tasks w' = tasks w \<and> brk w' = brk w \<and> cur_task w' = cur_task w"
    using set_remove_alloc [of ptr "kernel w"]
    by (cases "on_stack (tasks w (cur_task w))")
       (auto simp add: upcall_exchange_free_def upcall_s_exchange_free_def heap_defs
          switch_defs emitted_def Let_def fun_eq_iff)
next
  show "\<exists>w'. upcall_free ptr w = Returns () w' \<and>
      emitted w w' =
        (if on_rust_stack (cur_task w) w then [Stack_switch (cur_task w) CStack] else []) @
        [Log (cur_task w) ''upcall'' ''> UPCALL %s - task: %s 0x%PRIxPTR retpc: x%PRIxPTR''
           [S ''upcall_s_free'', S (name (tasks w (cur_task w))), P (cur_task w), Retpc],
         DLog (sched_loop (tasks w (cur_task w))) ''mem''
           ''upcall free(0x%PRIxPTR, is_gc=%PRIdPTR)'' [P ptr],
         Untrack_origin (cur_task w) ptr,
         Boxed_free (cur_task w) ptr] @
        (if on_rust_stack (cur_task w) w then [Stack_switch (cur_task w) RustStack] else []) \<and>
      filter is_call (emitted w w') =
        [Untrack_origin (cur_task w) ptr, Boxed_free (cur_task w) ptr] \<and>
      boxed (tasks w' (cur_task w)) = remove_alloc ptr (boxed (tasks w (cur_task w))) \<and>
      set (boxed (tasks w' (cur_task w))) \<subseteq> set (boxed (tasks w (cur_task w))) \<and>
      tasks w' =
        (tasks w)(cur_task w :=
           (tasks w (cur_task w))\<lparr>boxed := remove_alloc ptr (boxed (tasks w (cur_task w)))\<rparr>) \<and>
      kernel w' = kernel w \<and> brk w' = brk w \<and> cur_task w' = cur_task w"
    using set_remove_alloc [of ptr "boxed (tasks w (cur_task w))"]
    by (cases "on_stack (tasks w (cur_task w))")
       (auto simp add: upcall_free_def upcall_s_free_def heap_defs
          switch_defs emitted_def Let_def fun_eq_iff)
qed (simp_all add: upcall_exchange_free_def upcall_s_exchange_free_def upcall_free_def
       upcall_s_free_def heap_defs store_boxed_header_def switch_defs emitted_def Let_def)

text \<open>The two misuses: the world after an exchange allocate, whose box at 4097 (reference
  count \<open>-1\<close>) is then freed through the task-local path, and the world after a
  task-local allocate, whose box at 4097 (reference count 1) is then freed through the
  exchange path. Each returns normally, and the lines and calls are those of any
  other free.\<close>

theorem free_paths_unchecked_witness:
  "map (\<lambda>(a, b). (a, ref_count (blk_box b)))
     (kernel (world_of (upcall_exchange_malloc example_box_size example_td 16 example_world))) =
     [(4097, - 1)] \<and>
   (\<exists>w'. upcall_free 4097
            (world_of (upcall_exchange_malloc example_box_size example_td 16 example_world)) =
            Returns () w' \<and>
          map fst (kernel w') = [4097] \<and>
          emitted
            (world_of (upcall_exchange_malloc example_box_size example_td 16 example_world)) w' =
            [Stack_switch 7 CStack,
             Log 7 ''upcall'' ''> UPCALL %s - task: %s 0x%PRIxPTR retpc: x%PRIxPTR''
               [S ''upcall_s_free'', S ''main'', P 7, Retpc],
             DLog 3 ''mem'' ''upcall free(0x%PRIxPTR, is_gc=%PRIdPTR)'' [P 4097],
             Untrack_origin 7 4097,
             Boxed_free 7 4097,
             Stack_switch 7 RustStack]) \<and>
   map (\<lambda>(a, b). (a, ref_count (blk_box b)))
     (boxed (tasks (world_of (upcall_malloc example_box_size example_td 16 example_world)) 7)) =
     [(4097, 1)] \<and>
   (\<exists>w'. upcall_exchange_free 4097
            (world_of (upcall_malloc example_box_size example_td 16 example_world)) =
            Returns () w' \<and>
          map fst (boxed (tasks w' 7)) = [4097] \<and>
          emitted (world_of (upcall_malloc example_box_size example_td 16 example_world)) w' =
            [Stack_switch 7 CStack,
             Log 7 ''upcall'' ''> UPCALL %s - task: %s 0x%PRIxPTR retpc: x%PRIxPTR''
               [S ''upcall_s_exchange_free'', S ''main'', P 7, Retpc],
             Log 7 ''mem'' ''exchange freed %p'' [P 4097],
             Kernel_free 4097,
             Stack_switch 7 RustStack])"
proof -
  let ?wx = "world_of (upcall_exchange_malloc example_box_size example_td 16 example_world)"
  let ?wm = "world_of (upcall_malloc example_box_size example_td 16 example_world)"
  have x: "map (\<lambda>(a, b). (a, ref_count (blk_box b))) (kernel ?wx) = [(4097, - 1)]"
    "map fst (kernel ?wx) = [4097]"
    "cur_task ?wx = 7" "on_rust_stack 7 ?wx" "name (tasks ?wx 7) = ''main''"
    "sched_loop (tasks ?wx 7) = 3"
    by (simp_all add: upcall_exchange_malloc_def upcall_s_exchange_malloc_def switch_defs
        heap_defs example_defs Let_def)
  have m: "map (\<lambda>(a, b). (a, ref_count (blk_box b))) (boxed (tasks ?wm 7)) = [(4097, 1)]"
    "map fst (boxed (tasks ?wm 7)) = [4097]"
    "cur_task ?wm = 7" "on_rust_stack 7 ?wm" "name (tasks ?wm 7) = ''main''"
    by (simp_all add: upcall_malloc_def upcall_s_malloc_def switch_defs heap_defs
        example_defs Let_def)
  obtain w1 where f: "upcall_free 4097 ?wx = Returns () w1" "kernel w1 = kernel ?wx"
    "emitted ?wx w1 =
        (if on_rust_stack (cur_task ?wx) ?wx then [Stack_switch (cur_task ?wx) CStack] else []) @
        [Log (cur_task ?wx) ''upcall'' ''> UPCALL %s - task: %s 0x%PRIxPTR retpc: x%PRIxPTR''
           [S ''upcall_s_free'', S (name (tasks ?wx (cur_task ?wx))), P (cur_task ?wx), Retpc],
         DLog (sched_loop (tasks ?wx (cur_task ?wx))) ''mem''
           ''upcall free(0x%PRIxPTR, is_gc=%PRIdPTR)'' [P 4097],
         Untrack_origin (cur_task ?wx) 4097,
         Boxed_free (cur_task ?wx) 4097] @
        (if on_rust_stack (cur_task ?wx) ?wx then [Stack_switch (cur_task ?wx) RustStack] else [])"
    using free_paths_unchecked [of 4097 ?wx] by blast
  obtain w2 where g: "upcall_exchange_free 4097 ?wm = Returns () w2" "tasks w2 = tasks ?wm"
    "emitted ?wm w2 =
        (if on_rust_stack (cur_task ?wm) ?wm then [Stack_switch (cur_task ?wm) CStack] else []) @
        [Log (cur_task ?wm) ''upcall'' ''> UPCALL %s - task: %s 0x%PRIxPTR retpc: x%PRIxPTR''
           [S ''upcall_s_exchange_free'', S (name (tasks ?wm (cur_task ?wm))), P (cur_task ?wm), Retpc],
         Log (cur_task ?wm) ''mem'' ''exchange freed %p'' [P 4097],
         Kernel_free 4097] @
        (if on_rust_stack (cur_task ?wm) ?wm then [Stack_switch (cur_task ?wm) RustStack] else [])"
    using free_paths_unchecked [of 4097 ?wm] by blast
  show ?thesis using x m f g by simp
qed

text \<open>
  C9. For every requested size and argument block, growing the guest stack returns
  the frame base of the new current segment, and shrinking it at once restores the
  previous frame base and the previous chain of segments exactly. Neither entry point
  switches stacks or builds an argument record for a handler: each makes its single
  call to the task on the stack it was entered on.
\<close>

theorem grow_shrink_restores_frame_base:
  "\<exists>b w1 w2.
     upcall_new_stack stk_sz args_addr args_sz w = Returns b w1 \<and>
     upcall_del_stack w1 = Returns () w2 \<and>
     frame_base (cur_task w) w1 = b \<and>
     frame_base (cur_task w) w2 = frame_base (cur_task w) w \<and>
     stk (tasks w2 (cur_task w)) = stk (tasks w (cur_task w)) \<and>
     tasks w2 = tasks w \<and>
     emitted w w1 = [Next_stack (cur_task w) stk_sz args_addr args_sz b] \<and>
     emitted w1 w2 = [Prev_stack (cur_task w)] \<and>
     filter is_switch (emitted w w2) = [] \<and>
     on_stack (tasks w1 (cur_task w)) = on_stack (tasks w (cur_task w))"
  by (auto simp add: upcall_new_stack_def upcall_del_stack_def next_stack_def prev_stack_def
      frame_base_def switch_defs emitted_def Let_def fun_eq_iff)

theorem grow_shrink_restores_frame_base_witness:
  "frame_base 7 example_world = 1024 \<and>
   (\<exists>w1 w2.
      upcall_new_stack 256 1000 24 example_world = Returns 4097 w1 \<and>
      frame_base 7 w1 = 4097 \<and>
      on_stack (tasks w1 7) = RustStack \<and>
      upcall_del_stack w1 = Returns () w2 \<and>
      frame_base 7 w2 = 1024 \<and>
      trace w2 = [Next_stack 7 256 1000 24 4097, Prev_stack 7])"
proof -
  have c: "cur_task example_world = 7" "frame_base 7 example_world = 1024"
    "on_stack (tasks example_world 7) = RustStack" "trace example_world = []"
    by (simp_all add: example_defs frame_base_def)
  obtain b w1 w2 where
    n: "upcall_new_stack 256 1000 24 example_world = Returns b w1"
    and d: "upcall_del_stack w1 = Returns () w2"
    and r: "frame_base (cur_task example_world) w1 = b"
      "frame_base (cur_task example_world) w2 = frame_base (cur_task example_world) example_world"
      "on_stack (tasks w1 (cur_task example_world)) = on_stack (tasks example_world (cur_task example_world))"
    and e: "emitted example_world w1 = [Next_stack (cur_task example_world) 256 1000 24 b]"
      "emitted w1 w2 = [Prev_stack (cur_task example_world)]"
    using grow_shrink_restores_frame_base [of 256 1000 24 example_world] by blast
  have "returned (upcall_new_stack 256 1000 24 example_world) = Some 4097"
    by (simp add: upcall_new_stack_def next_stack_def switch_defs example_defs Let_def)
  with n have b: "b = 4097" by simp
  have t1: "trace w1 = [Next_stack 7 256 1000 24 4097]"
    using e(1) c b by (simp add: emitted_def)
  have "drop (length (trace w1)) (trace w2) = [Prev_stack 7]"
    using e(2) c by (simp add: emitted_def)
  moreover have "take (length (trace w1)) (trace w2) = trace w1"
    using n d by (auto simp add: upcall_new_stack_def upcall_del_stack_def next_stack_def
        prev_stack_def switch_defs Let_def)
  ultimately have "trace w2 = trace w1 @ [Prev_stack 7]"
    by (metis append_take_drop_id)
  then show ?thesis using n d r c b t1 by simp
qed

text \<open>
  C10. For every input, the box-validation upcall and the type-logging upcall abort
  the process: they do not return, and they leave the state they were called in as it
  was, the trace included.
\<close>

theorem unimplemented_upcalls_abort:
  "upcall_validate_box ptr w = Aborts w \<and>
   upcall_log_type tydesc data level w = Aborts w \<and>
   returned (upcall_validate_box ptr w) = None \<and>
   returned (upcall_log_type tydesc data level w) = None"
  by (simp add: upcall_validate_box_def upcall_log_type_def)

theorem unimplemented_upcalls_abort_witness:
  "aborts (upcall_validate_box 4097 example_world) \<and>
   aborts (upcall_log_type example_td 4097 1 example_world) \<and>
   trace (world_of (upcall_validate_box 4097 example_world)) = [] \<and>
   trace (world_of (upcall_log_type example_td 4097 1 example_world)) = []"
  using unimplemented_upcalls_abort [of 4097 example_world example_td 4097 1]
  by (simp add: example_defs)

end
